theory Spec2Isabelle
  imports Main "HOL-Library.Log_Nat"
begin

section \<open>Geometry helpers (image\_utils.py)\<close>

text \<open>
  A bounding box is the 4-tuple \<open>(left, top, right, bottom)\<close> that the text measurement
  of the rendering backend returns. The callers in this repository pass pixel counts,
  so the components are Python ints, modelled as \<open>int\<close>; Python's \<open>//\<close> on ints is the
  floor division \<open>div\<close> of HOL's \<open>int\<close>.
\<close>

type_synonym bbox = "int \<times> int \<times> int \<times> int"

definition bbox_left :: "bbox \<Rightarrow> int" where
  "bbox_left b = fst b"

definition bbox_top :: "bbox \<Rightarrow> int" where
  "bbox_top b = fst (snd b)"

definition bbox_right :: "bbox \<Rightarrow> int" where
  "bbox_right b = fst (snd (snd b))"

definition bbox_bottom :: "bbox \<Rightarrow> int" where
  "bbox_bottom b = snd (snd (snd b))"

text \<open>
  Python's two-argument \<open>min\<close> and \<open>max\<close> keep the first argument unless the second
  is strictly smaller (larger).
\<close>

definition py_min :: "'a::linorder \<Rightarrow> 'a \<Rightarrow> 'a" where
  "py_min a b = (if b < a then b else a)"

definition py_max :: "'a::linorder \<Rightarrow> 'a \<Rightarrow> 'a" where
  "py_max a b = (if a < b then b else a)"

text \<open>\<^verbatim>\<open>center_position(final_poster_width, obj_bbox)\<close>\<close>

definition center_position :: "int \<Rightarrow> bbox \<Rightarrow> int" where
  "center_position final_poster_width obj_bbox =
     (let obj_width = bbox_right obj_bbox - bbox_left obj_bbox
      in (final_poster_width - obj_width) div 2)"

text \<open>\<^verbatim>\<open>add_bboxes(bbox1, bbox2)\<close>\<close>

definition add_bboxes :: "bbox \<Rightarrow> bbox \<Rightarrow> bbox" where
  "add_bboxes bbox1 bbox2 =
     (let left = py_min (bbox_left bbox1) (bbox_left bbox2);
          top = py_min (bbox_top bbox1) (bbox_top bbox2);
          right = py_max (bbox_right bbox1) (bbox_right bbox2);
          bottom = py_max (bbox_bottom bbox1) (bbox_bottom bbox2)
      in (left, top, right, bottom))"



section \<open>Python floats\<close>

text \<open>
  A Python float is an IEEE 754 binary64 number. A finite float is modelled by the
  rational number it denotes, and every float operation is the exact operation followed
  by rounding to the nearest binary64 value, ties to even. The exponent range is not
  bounded here: all quantities of this program (pixel counts and their quotients) are far
  from overflow and underflow, where this coincides with binary64.
\<close>

definition pow2 :: "int \<Rightarrow> rat" where
  "pow2 e = (if 0 \<le> e then 2 ^ nat e else 1 / 2 ^ nat (- e))"

definition round_half_even :: "rat \<Rightarrow> int" where
  "round_half_even x =
     (let n = \<lfloor>x\<rfloor>; r = x - of_int n
      in if r < 1 / 2 then n else if 1 / 2 < r then n + 1 else if even n then n else n + 1)"

text \<open>The binary exponent \<open>e\<close> of a positive rational: \<open>2^e \<le> x < 2^(e+1)\<close>.\<close>

definition binade :: "rat \<Rightarrow> int" where
  "binade x = (if 1 \<le> x then bitlen \<lfloor>x\<rfloor> - 1 else - bitlen (\<lceil>1 / x\<rceil> - 1))"

definition round_double :: "rat \<Rightarrow> rat" where
  "round_double x =
     (if x = 0 then 0
      else let a = \<bar>x\<bar>; e = binade a; m = round_half_even (a * pow2 (52 - e))
           in sgn x * of_int m * pow2 (e - 52))"

datatype error =
    FileNotFoundError | FileExistsError | UnidentifiedImageError | OSError
  | ZeroDivisionError | KeyError

text \<open>\<^verbatim>\<open>a / b\<close> on two ints (true division, correctly rounded).\<close>

definition py_truediv :: "int \<Rightarrow> int \<Rightarrow> error + rat" where
  "py_truediv a b =
     (if b = 0 then Inl ZeroDivisionError else Inr (round_double (of_int a / of_int b)))"

text \<open>\<^verbatim>\<open>a * x\<close> for an int \<open>a\<close> and a float \<open>x\<close>: the int is converted first.\<close>

definition py_mul_int_float :: "int \<Rightarrow> rat \<Rightarrow> rat" where
  "py_mul_int_float a x = round_double (round_double (of_int a) * x)"

text \<open>\<^verbatim>\<open>int(x)\<close> on a float truncates towards zero.\<close>

definition py_int :: "rat \<Rightarrow> int" where
  "py_int x = (if 0 \<le> x then \<lfloor>x\<rfloor> else \<lceil>x\<rceil>)"

text \<open>
  \<^verbatim>\<open>vx // wx\<close> on floats, as CPython's \<^verbatim>\<open>float_floor_div\<close> computes it: the exact
  \<^verbatim>\<open>fmod\<close>, the quotient of the rounded difference, a sign correction, and a snap of
  the quotient to the nearest integral value.
\<close>

definition c_fmod :: "rat \<Rightarrow> rat \<Rightarrow> rat" where
  "c_fmod vx wx = vx - of_int (py_int (vx / wx)) * wx"

definition py_floordiv_float :: "rat \<Rightarrow> rat \<Rightarrow> error + rat" where
  "py_floordiv_float vx wx =
     (if wx = 0 then Inl ZeroDivisionError
      else let md = c_fmod vx wx;
               div0 = round_double (round_double (vx - md) / wx);
               div1 = (if md \<noteq> 0 \<and> ((wx < 0) \<noteq> (md < 0)) then round_double (div0 - 1) else div0)
           in if div1 \<noteq> 0
              then let floordiv = of_int \<lfloor>div1\<rfloor>
                   in Inr (if 1 / 2 < round_double (div1 - floordiv)
                           then round_double (floordiv + 1) else floordiv)
              else Inr 0)"

text \<open>\<^verbatim>\<open>float(a)\<close> of an int, \<^verbatim>\<open>x - b\<close> and \<^verbatim>\<open>a + x\<close> for a float \<open>x\<close> and ints \<open>a\<close>, \<open>b\<close>.\<close>

definition py_float :: "int \<Rightarrow> rat" where
  "py_float a = round_double (of_int a)"

definition py_sub_float_int :: "rat \<Rightarrow> int \<Rightarrow> rat" where
  "py_sub_float_int x b = round_double (x - py_float b)"

definition py_add_int_float :: "int \<Rightarrow> rat \<Rightarrow> rat" where
  "py_add_int_float a x = round_double (py_float a + x)"

text \<open>The float literals \<^verbatim>\<open>1.2\<close> and \<^verbatim>\<open>1.3\<close>.\<close>

definition float_1_2 :: rat where
  "float_1_2 = round_double (12 / 10)"

definition float_1_3 :: rat where
  "float_1_3 = round_double (13 / 10)"

text \<open>A number that is a Python int or a Python float (coordinates handed to the drawing calls).\<close>

datatype pynum = PyInt int | PyFloat rat


section \<open>Images, fonts, the file system and the network\<close>

text \<open>
  The imaging library is not part of this repository. Its images are modelled as the
  terms of the calls that build them: what the program decides is which call is made on
  which arguments, and the size of every image. A \<open>Raster\<close> is the decoded content of
  an image file (width, height and an identifier of its pixels). \<open>DefaultResample\<close>
  stands for the filter \<^verbatim>\<open>resize\<close> uses when none is given. The checks the library makes
  on its arguments (a resize to an empty size, a font size below 1) are outside the
  model, and so are failures of the operating system while a file is written.
\<close>

datatype resampling = LANCZOS | DefaultResample

datatype font = FreeTypeFont (ft_data: nat) (ft_size: int)

datatype image =
    Raster int int nat
  | Convert string image
  | Resize image "int \<times> int" resampling
  | New string "int \<times> int" "int \<times> int \<times> int \<times> int"
  | Paste image image "int \<times> int"
  | AlphaComposite image image
  | DrawText image "pynum \<times> pynum" string font string

fun image_size :: "image \<Rightarrow> int \<times> int" where
  "image_size (Raster w h px) = (w, h)"
| "image_size (Convert mode im) = image_size im"
| "image_size (Resize im sz resample) = sz"
| "image_size (New mode sz color) = sz"
| "image_size (Paste canvas im box) = image_size canvas"
| "image_size (AlphaComposite im1 im2) = image_size im1"
| "image_size (DrawText im xy text fnt fill) = image_size im"

definition image_width :: "image \<Rightarrow> int" where
  "image_width im = fst (image_size im)"

definition image_height :: "image \<Rightarrow> int" where
  "image_height im = snd (image_size im)"

text \<open>
  A file holds an image (it decodes to that image), a font, or something else. The
  world is the local file system, the directories, the remote image host (the body a
  GET of a URL returns, \<open>None\<close> when the request fails with a
  \<^verbatim>\<open>RequestException\<close>), the metadata service (the decoded JSON answer to a URL, \<open>None\<close>
  when the request fails) and the log of every access the program makes, in order.
  Printing is not modelled.

  The JSON answer is a dict; the program reads only its list-valued keys, whose entries
  are dicts with a \<^verbatim>\<open>file_path\<close>.
\<close>

type_synonym image_entry = "(string \<times> string) list"

type_synonym movie_images = "(string \<times> image_entry list) list"

datatype content = ImageFile image | FontFile nat | OtherFile

datatype event =
    EvMakedirs string | EvGet string | EvWrite string | EvOpenImage string
  | EvTruetype string int | EvSave string | EvRemove string

record world =
  files :: "string \<rightharpoonup> content"
  dirs :: "string set"
  remote :: "string \<rightharpoonup> content"
  api :: "string \<rightharpoonup> movie_images"
  log :: "event list"

text \<open>
  An action takes the world and returns the world it leaves, with a value or the
  exception it raised. \<open>bindE\<close> is sequencing: the second action runs only when the
  first returned a value.
\<close>

type_synonym 'a io = "world \<Rightarrow> (error + 'a) \<times> world"

definition returnE :: "'a \<Rightarrow> 'a io" where
  "returnE x = (\<lambda>w. (Inr x, w))"

definition raiseE :: "error \<Rightarrow> 'a io" where
  "raiseE e = (\<lambda>w. (Inl e, w))"

definition bindE :: "'a io \<Rightarrow> ('a \<Rightarrow> 'b io) \<Rightarrow> 'b io" where
  "bindE m f = (\<lambda>w. case m w of (Inl e, w') \<Rightarrow> (Inl e, w') | (Inr x, w') \<Rightarrow> f x w')"

definition liftE :: "error + 'a \<Rightarrow> 'a io" where
  "liftE r = (case r of Inl e \<Rightarrow> raiseE e | Inr x \<Rightarrow> returnE x)"

definition record_event :: "event \<Rightarrow> world \<Rightarrow> world" where
  "record_event ev w = w\<lparr>log := log w @ [ev]\<rparr>"

text \<open>\<^verbatim>\<open>Image.open(path)\<close>\<close>

definition Image_open :: "string \<Rightarrow> image io" where
  "Image_open path = (\<lambda>w.
     let w' = record_event (EvOpenImage path) w
     in case files w path of
          None \<Rightarrow> (Inl FileNotFoundError, w')
        | Some (ImageFile im) \<Rightarrow> (Inr im, w')
        | Some (FontFile d) \<Rightarrow> (Inl UnidentifiedImageError, w')
        | Some OtherFile \<Rightarrow> (Inl UnidentifiedImageError, w'))"

text \<open>
  \<^verbatim>\<open>ImageFont.truetype(font_path, size)\<close>. The library rejects a size below 1 with
  \<^verbatim>\<open>ValueError\<close> before it reads the file. The program asks for the sizes 244 down to
  10, 126 and 44 only; the rejection is left out here, so the definition describes the call
  for sizes from 1 on.
\<close>

definition ImageFont_truetype :: "string \<Rightarrow> int \<Rightarrow> font io" where
  "ImageFont_truetype font_path sz = (\<lambda>w.
     let w' = record_event (EvTruetype font_path sz) w
     in case files w font_path of
          Some (FontFile d) \<Rightarrow> (Inr (FreeTypeFont d sz), w')
        | Some (ImageFile im) \<Rightarrow> (Inl OSError, w')
        | Some OtherFile \<Rightarrow> (Inl OSError, w')
        | None \<Rightarrow> (Inl OSError, w'))"

text \<open>\<^verbatim>\<open>image.save(path, format='PNG')\<close>\<close>

definition Image_save :: "image \<Rightarrow> string \<Rightarrow> unit io" where
  "Image_save im path = (\<lambda>w.
     (Inr (), record_event (EvSave path) (w\<lparr>files := (files w)(path \<mapsto> ImageFile im)\<rparr>)))"


section \<open>Adaptive font sizing (image\_utils.py)\<close>

text \<open>
  The text measurement \<^verbatim>\<open>draw.textbbox((0, 0), text, font=font)\<close> belongs to the rendering
  backend; it is the parameter \<open>textbbox\<close> of everything below. The \<^verbatim>\<open>while\<close> loop of
  \<^verbatim>\<open>get_adaptive_font\<close> is \<open>shrink_font\<close>, with the loop variables \<open>font_size\<close> and
  \<open>font\<close> as arguments.
\<close>

function shrink_font ::
  "(font \<Rightarrow> string \<Rightarrow> bbox) \<Rightarrow> string \<Rightarrow> string \<Rightarrow> int \<Rightarrow> int \<Rightarrow> font \<Rightarrow> font io" where
  "shrink_font textbbox text font_path max_width font_size fnt =
     (if max_width < bbox_right (textbbox fnt text) \<and> 10 < font_size
      then bindE (ImageFont_truetype font_path (font_size - 1))
             (\<lambda>fnt'. shrink_font textbbox text font_path max_width (font_size - 1) fnt')
      else returnE fnt)"
  by pat_completeness auto
termination
  by (relation "measure (\<lambda>(textbbox, text, font_path, max_width, font_size, fnt). nat (font_size - 10))")
    auto

definition get_adaptive_font ::
  "(font \<Rightarrow> string \<Rightarrow> bbox) \<Rightarrow> string \<Rightarrow> string \<Rightarrow> int \<Rightarrow> int \<Rightarrow> font io" where
  "get_adaptive_font textbbox text font_path max_width initial_font_size =
     bindE (ImageFont_truetype font_path initial_font_size)
       (\<lambda>fnt. shrink_font textbbox text font_path max_width initial_font_size fnt)"

definition default_initial_font_size :: int where
  "default_initial_font_size = 244"


section \<open>Fill-resize (image\_utils.py)\<close>

text \<open>
  \<^verbatim>\<open>smart_resize\<close> loads the image (line 82) and then works on no file; that second
  part (lines 84 to 108) is \<open>smart_resize_image\<close>.
\<close>

definition smart_resize_image :: "image \<Rightarrow> int \<times> int \<Rightarrow> error + image" where
  "smart_resize_image img target_size =
     (case py_truediv (fst target_size) (image_width img) of
        Inl e \<Rightarrow> Inl e
      | Inr scale_width \<Rightarrow>
     (case py_truediv (snd target_size) (image_height img) of
        Inl e \<Rightarrow> Inl e
      | Inr scale_height \<Rightarrow>
          let scale = py_max scale_width scale_height;
              new_width = py_int (py_mul_int_float (image_width img) scale);
              new_height = py_int (py_mul_int_float (image_height img) scale);
              resized_image = Resize img (new_width, new_height) LANCZOS;
              canvas = New ''RGBA'' target_size (0, 0, 0, 0);
              x_offset = (fst target_size - new_width) div 2;
              y_offset = (snd target_size - new_height) div 2
          in Inr (Paste canvas resized_image (x_offset, y_offset))))"

definition smart_resize :: "string \<Rightarrow> int \<times> int \<Rightarrow> image io" where
  "smart_resize image_path target_size =
     bindE (Image_open image_path) (\<lambda>opened.
     liftE (smart_resize_image (Convert ''RGBA'' opened) target_size))"


section \<open>Poster compositor (image\_utils.py)\<close>

definition gloock_path :: string where
  "gloock_path = ''Gloock/Gloock-Regular.ttf''"

definition charmonman_path :: string where
  "charmonman_path = ''Charmonman/Charmonman-Bold.ttf''"

text \<open>The four texts; the last letter of the first is U+00E9.\<close>

definition cine :: string where
  "cine = ''cin'' @ [char_of (233 :: nat)]"

definition fil :: string where
  "fil = ''fil''"

definition room_info :: string where
  "room_info = ''salle J160''"

definition day_info :: string where
  "day_info = ''mardi 20h30''"

text \<open>
  \<^verbatim>\<open>create_image_poster\<close> is one function in the source. Its two blocks that touch no
  file are definitions of their own here: \<open>composite_blur\<close> (the offset of the blur
  layer and the alpha composite, lines 134 to 146) and \<open>draw_labels\<close> (the text
  measurement, the positions and the five drawing calls, lines 160 to 199).
  \<open>create_image_poster\<close> runs them in the order of the source, between the loading of
  the images, the loading of the fonts and the final save.
\<close>

definition composite_blur :: "image \<Rightarrow> image \<Rightarrow> error + image" where
  "composite_blur poster blur =
     (let poster_height = image_height poster;
          blur_height = image_height blur
      in case py_floordiv_float (py_float poster_height) float_1_2 of
           Inl e \<Rightarrow> Inl e
         | Inr q \<Rightarrow>
             let offset_y = py_int (py_sub_float_int q blur_height);
                 blur_with_offset =
                   Paste (New ''RGBA'' (image_size poster) (0, 0, 0, 0)) blur (0, - offset_y)
             in Inr (AlphaComposite poster blur_with_offset))"

definition draw_labels ::
  "(font \<Rightarrow> string \<Rightarrow> bbox) \<Rightarrow> string \<Rightarrow> image \<Rightarrow> font \<Rightarrow> font \<Rightarrow> font \<Rightarrow> font \<Rightarrow> error + image" where
  "draw_labels textbbox title_text final_poster title_font gloock_font charmonman_font small_font =
     (let title_bbox = textbbox title_font title_text;
          cine_bbox = textbbox gloock_font cine;
          fil_bbox = textbbox charmonman_font fil;
          room_bbox = textbbox small_font room_info;
          day_bbox = textbbox small_font day_info;
          title_position =
            (center_position (image_width final_poster) title_bbox,
             image_height final_poster - (image_height final_poster div 4));
          cine_width = bbox_right cine_bbox - bbox_left cine_bbox;
          fil_width = bbox_right fil_bbox - bbox_left fil_bbox;
          cinefil_width = cine_width + fil_width;
          cine_height = bbox_bottom cine_bbox - bbox_top cine_bbox;
          fil_height = bbox_bottom fil_bbox - bbox_top fil_bbox;
          cinefil_height = cine_height + fil_height;
          cinefil_bbox = add_bboxes cine_bbox fil_bbox;
          cinefil_start_position = center_position (image_width final_poster) cinefil_bbox;
          cine_position =
            (cinefil_start_position, image_height final_poster - 450 + (cine_height div 4));
          fil_position =
            (cinefil_start_position + bbox_right cine_bbox, image_height final_poster - 450)
      in case py_floordiv_float (py_float cinefil_width) float_1_3 of
           Inl e \<Rightarrow> Inl e
         | Inr room_shift \<Rightarrow>
             let room_position =
                   (PyFloat (py_add_int_float (fst cine_position + bbox_right room_bbox) room_shift),
                    PyInt (snd cine_position + (cinefil_height div 4)));
                 day_position =
                   (PyInt (fst cine_position - bbox_right day_bbox - (cinefil_width div 3)),
                    PyInt (snd cine_position + (cinefil_height div 4)));
                 drawn1 = DrawText final_poster
                            (PyInt (fst title_position), PyInt (snd title_position))
                            title_text title_font ''white'';
                 drawn2 = DrawText drawn1 (PyInt (fst cine_position), PyInt (snd cine_position))
                            cine gloock_font ''white'';
                 drawn3 = DrawText drawn2 (PyInt (fst fil_position), PyInt (snd fil_position))
                            fil charmonman_font ''white'';
                 drawn4 = DrawText drawn3 room_position room_info small_font ''white'';
                 drawn5 = DrawText drawn4 day_position day_info small_font ''white''
             in Inr drawn5)"

definition create_image_poster ::
  "(font \<Rightarrow> string \<Rightarrow> bbox) \<Rightarrow> string \<Rightarrow> string \<Rightarrow> string \<Rightarrow> string \<Rightarrow> unit io" where
  "create_image_poster textbbox title_text poster_image_path output_image_path blur_image_path =
     (let target_size = (2400, 2940) in
      bindE (smart_resize poster_image_path target_size) (\<lambda>poster.
      bindE (Image_open blur_image_path) (\<lambda>blur_opened.
      let blur = Convert ''RGBA'' (Resize blur_opened (2400, 2940) DefaultResample) in
      bindE (liftE (composite_blur poster blur)) (\<lambda>final_poster.
      let max_title_width = image_width poster - 200 in
      bindE (get_adaptive_font textbbox title_text gloock_path max_title_width
               default_initial_font_size) (\<lambda>title_font.
      bindE (ImageFont_truetype gloock_path 126) (\<lambda>gloock_font.
      bindE (ImageFont_truetype charmonman_path 126) (\<lambda>charmonman_font.
      bindE (ImageFont_truetype gloock_path 44) (\<lambda>small_font.
      bindE (liftE (draw_labels textbbox title_text final_poster title_font gloock_font
                      charmonman_font small_font)) (\<lambda>drawn.
      Image_save drawn output_image_path)))))))))"


section \<open>The metadata service and the image host (tmdb\_utils.py)\<close>








section \<open>Orchestration (main.py)\<close>










section \<open>Notions used in the statements\<close>

text \<open>
  The size at which the loop of \<open>get_adaptive_font\<close> stops, as a function of the
  measured width at each size, and the measured width of a text at a size.
\<close>

function final_size :: "(int \<Rightarrow> int) \<Rightarrow> int \<Rightarrow> int \<Rightarrow> int" where
  "final_size width max_width s =
     (if max_width < width s \<and> 10 < s then final_size width max_width (s - 1) else s)"
  by pat_completeness auto
termination
  by (relation "measure (\<lambda>(width, max_width, s). nat (s - 10))") auto

definition text_width :: "(font \<Rightarrow> string \<Rightarrow> bbox) \<Rightarrow> nat \<Rightarrow> string \<Rightarrow> int \<Rightarrow> int" where
  "text_width textbbox d text s = bbox_right (textbbox (FreeTypeFont d s) text)"


text \<open>A text measurement and a world to run the program on.\<close>

definition sample_textbbox :: "font \<Rightarrow> string \<Rightarrow> bbox" where
  "sample_textbbox fnt text = (0, 0, ft_size fnt * int (length text), ft_size fnt)"

definition sample_world :: world where
  "sample_world =
     \<lparr>files = [''poster.jpg'' \<mapsto> ImageFile (Raster 1000 2000 0),
               ''Blur.png'' \<mapsto> ImageFile (Raster 600 800 1),
               gloock_path \<mapsto> FontFile 0,
               charmonman_path \<mapsto> FontFile 1],
      dirs = {}, remote = Map.empty, api = Map.empty, log = []\<rparr>"



definition offset_textbbox :: "font \<Rightarrow> string \<Rightarrow> bbox" where
  "offset_textbbox fnt text =
     (int (length text), 0, int (length text) + ft_size fnt * int (length text), ft_size fnt)"


text \<open>
  The error \<^verbatim>\<open>Image.open\<close> raises on a path that holds no image; the image under the
  drawn texts and the drawn texts of an image, in drawing order; a world with one
  small image.
\<close>

definition open_error :: "content option \<Rightarrow> error" where
  "open_error c = (case c of None \<Rightarrow> FileNotFoundError | Some x \<Rightarrow> UnidentifiedImageError)"

fun undrawn :: "image \<Rightarrow> image" where
  "undrawn (DrawText im xy text fnt fill) = undrawn im"
| "undrawn im = im"

fun drawn_texts :: "image \<Rightarrow> ((pynum \<times> pynum) \<times> string \<times> font \<times> string) list" where
  "drawn_texts (DrawText im xy text fnt fill) = drawn_texts im @ [(xy, text, fnt, fill)]"
| "drawn_texts im = []"

definition tiny_world :: world where
  "tiny_world =
     \<lparr>files = [''small.jpg'' \<mapsto> ImageFile (Raster 37 37 0)],
      dirs = {}, remote = Map.empty, api = Map.empty, log = []\<rparr>"





fun saved_paths :: "event list \<Rightarrow> string list" where
  "saved_paths [] = []"
| "saved_paths (EvSave p # evs) = p # saved_paths evs"
| "saved_paths (ev # evs) = saved_paths evs"


text \<open>
  What an action adds to the log, whatever the world it starts in: every request it
  makes satisfies \<open>G\<close>, and when it returns normally the paths it saved to are \<open>S\<close>.
\<close>

definition tracks :: "'a io \<Rightarrow> (string \<Rightarrow> bool) \<Rightarrow> string list \<Rightarrow> bool" where
  "tracks m G S =
     (\<forall>w. \<exists>evs. log (snd (m w)) = log w @ evs
            \<and> (\<forall>u. EvGet u \<in> set evs \<longrightarrow> G u)
            \<and> ((\<exists>x. fst (m w) = Inr x) \<longrightarrow> saved_paths evs = S))"







section \<open>Properties of the geometry helpers\<close>

lemma py_min_eq_min: "py_min a b = min a b"
  by (auto simp add: py_min_def min_def)

lemma py_max_eq_max: "py_max a b = max a b"
  by (auto simp add: py_max_def max_def)

lemma add_bboxes_components:
  "add_bboxes (l1, t1, r1, b1) (l2, t2, r2, b2) = (min l1 l2, min t1 t2, max r1 r2, max b1 b2)"
  by (simp add: add_bboxes_def bbox_left_def bbox_top_def bbox_right_def bbox_bottom_def
      py_min_eq_min py_max_eq_max)

text \<open>
  Claim C6. For every canvas width \<open>W\<close> and every bounding box, \<open>center_position\<close> is
  exactly the floor of the rational number \<open>(W - (right - left)) / 2\<close>. Nothing is
  clamped: the result is negative as soon as the box is wider than the canvas, and a
  box of width zero gives the floor of \<open>W / 2\<close> (the only division is by the constant 2,
  so no division error can arise).
\<close>

theorem center_position_floor:
  "center_position W (l, t, r, b) = \<lfloor>(of_int (W - (r - l)) :: rat) / 2\<rfloor>
   \<and> (W < r - l \<longrightarrow> center_position W (l, t, r, b) < 0)
   \<and> (r = l \<longrightarrow> center_position W (l, t, r, b) = \<lfloor>(of_int W :: rat) / 2\<rfloor>)"
proof -
  have fl: "\<lfloor>(of_int k :: rat) / 2\<rfloor> = k div 2" for k :: int
    using floor_divide_of_int_eq [of k 2, where ?'a = rat] by simp
  have val: "center_position W (l, t, r, b) = (W - (r - l)) div 2"
    by (simp add: center_position_def bbox_left_def bbox_right_def)
  have c1: "center_position W (l, t, r, b) = \<lfloor>(of_int (W - (r - l)) :: rat) / 2\<rfloor>"
    unfolding val fl ..
  have c2: "W < r - l \<longrightarrow> center_position W (l, t, r, b) < 0"
    unfolding val by (simp add: div_neg_pos_less0)
  have c3: "r = l \<longrightarrow> center_position W (l, t, r, b) = \<lfloor>(of_int W :: rat) / 2\<rfloor>"
    unfolding val fl by simp
  show ?thesis
    using c1 c2 c3 by blast
qed

theorem center_position_floor_witness:
  "(2400 :: int) < 2500 - (-100)
   \<and> center_position 2400 (-100, 7, 2500, 90) = -100
   \<and> center_position 2400 (-100, 7, 2500, 90) < 0
   \<and> center_position 2401 (35, 0, 35, 12) = 1200"
proof -
  have fl: "\<lfloor>(of_int k :: rat) / 2\<rfloor> = k div 2" for k :: int
    using floor_divide_of_int_eq [of k 2, where ?'a = rat] by simp
  have a: "center_position 2400 (-100, 7, 2500, 90) = -100"
    using center_position_floor [of 2400 "-100" 7 2500 90] unfolding fl by simp
  have b: "center_position 2400 (-100, 7, 2500, 90) < 0"
    using center_position_floor [of 2400 "-100" 7 2500 90] by simp
  have c: "center_position 2401 (35, 0, 35, 12) = 1200"
    using center_position_floor [of 2401 35 0 35 12] unfolding of_int_numeral fl by simp
  show ?thesis
    using a b c by simp
qed

text \<open>
  Claim C8. \<open>add_bboxes\<close> takes the smaller left and top and the larger right and bottom,
  and it is commutative, associative and idempotent.
\<close>

theorem add_bboxes_semilattice:
  "add_bboxes (l1, t1, r1, b1) (l2, t2, r2, b2) = (min l1 l2, min t1 t2, max r1 r2, max b1 b2)
   \<and> add_bboxes x y = add_bboxes y x
   \<and> add_bboxes (add_bboxes x y) z = add_bboxes x (add_bboxes y z)
   \<and> add_bboxes x x = x"
proof -
  obtain xl xt xr xb where x: "x = (xl, xt, xr, xb)" by (cases x) auto
  obtain yl yt yr yb where y: "y = (yl, yt, yr, yb)" by (cases y) auto
  obtain zl zt zr zb where z: "z = (zl, zt, zr, zb)" by (cases z) auto
  have comm: "add_bboxes x y = add_bboxes y x"
    by (simp add: x y add_bboxes_components min.commute max.commute)
  have assoc: "add_bboxes (add_bboxes x y) z = add_bboxes x (add_bboxes y z)"
    by (simp add: x y z add_bboxes_components min.assoc max.assoc)
  have idem: "add_bboxes x x = x"
    by (simp add: x add_bboxes_components)
  show ?thesis
    using comm assoc idem by (simp add: add_bboxes_components)
qed



section \<open>Properties of the adaptive font sizing\<close>

lemma files_record_event [simp]: "files (record_event ev w) = files w"
  by (simp add: record_event_def)

lemma log_record_event [simp]: "log (record_event ev w) = log w @ [ev]"
  by (simp add: record_event_def)

lemma ImageFont_truetype_valid:
  "files w p = Some (FontFile d) \<Longrightarrow>
   ImageFont_truetype p s w = (Inr (FreeTypeFont d s), record_event (EvTruetype p s) w)"
  by (simp add: ImageFont_truetype_def)

lemma ImageFont_truetype_invalid:
  "(\<forall>d. files w p \<noteq> Some (FontFile d)) \<Longrightarrow>
   ImageFont_truetype p s w = (Inl OSError, record_event (EvTruetype p s) w)"
  by (auto simp add: ImageFont_truetype_def Let_def split: option.splits content.splits)

declare final_size.simps [simp del]
declare shrink_font.simps [simp del]

lemma final_size_step:
  "mw < wd s \<Longrightarrow> 10 < s \<Longrightarrow> final_size wd mw s = final_size wd mw (s - 1)"
  using final_size.simps [of wd mw s] by simp

lemma final_size_done:
  "\<not> (mw < wd s \<and> 10 < s) \<Longrightarrow> final_size wd mw s = s"
  using final_size.simps [of wd mw s] by (simp only: if_False)

lemma final_size_le: "final_size wd mw s \<le> s"
proof (induction wd mw s rule: final_size.induct)
  case (1 wd mw s)
  show ?case
  proof (cases "mw < wd s \<and> 10 < s")
    case True
    with "1.IH" show ?thesis by (simp add: final_size_step)
  next
    case False
    then show ?thesis by (simp add: final_size_done)
  qed
qed





lemma final_size_mono: "mw1 \<le> mw2 \<Longrightarrow> final_size wd mw1 s \<le> final_size wd mw2 s"
proof (induction wd mw2 s rule: final_size.induct)
  case (1 wd mw2 s)
  show ?case
  proof (cases "mw2 < wd s \<and> 10 < s")
    case True
    with "1.prems" have c1: "mw1 < wd s \<and> 10 < s" by simp
    have "final_size wd mw1 s = final_size wd mw1 (s - 1)"
      using c1 by (simp add: final_size_step)
    moreover have "final_size wd mw2 s = final_size wd mw2 (s - 1)"
      using True by (simp add: final_size_step)
    ultimately show ?thesis
      using "1.IH" [OF True "1.prems"] by simp
  next
    case False
    then have "final_size wd mw2 s = s"
      by (simp add: final_size_done)
    then show ?thesis
      using final_size_le [of wd mw1 s] by simp
  qed
qed


lemma shrink_font_valid:
  "files w p = Some (FontFile d) \<Longrightarrow>
   shrink_font tb text p mw s (FreeTypeFont d s) w =
     (Inr (FreeTypeFont d (final_size (text_width tb d text) mw s)),
      w\<lparr>log := log w @ map (EvTruetype p) (rev [final_size (text_width tb d text) mw s..s - 1])\<rparr>)"
proof (induction "text_width tb d text" mw s arbitrary: w rule: final_size.induct)
  case (1 mw s)
  let ?wd = "text_width tb d text"
  show ?case
  proof (cases "mw < ?wd s \<and> 10 < s")
    case True
    let ?w1 = "record_event (EvTruetype p (s - 1)) w"
    let ?f = "final_size ?wd mw (s - 1)"
    have f1: "files ?w1 p = Some (FontFile d)" using "1.prems" by simp
    have fs: "final_size ?wd mw s = ?f"
      using True by (simp add: final_size_step)
    have le: "?f \<le> s - 1" by (rule final_size_le)
    have up: "[?f..s - 1] = [?f..s - 1 - 1] @ [s - 1]"
      using le by (rule upto_rec2)
    have trail: "map (EvTruetype p) (rev [?f..s - 1]) =
                 EvTruetype p (s - 1) # map (EvTruetype p) (rev [?f..s - 1 - 1])"
      by (subst up) simp
    have "shrink_font tb text p mw s (FreeTypeFont d s) w =
          shrink_font tb text p mw (s - 1) (FreeTypeFont d (s - 1)) ?w1"
      using True "1.prems"
      by (subst shrink_font.simps) (simp add: text_width_def bindE_def ImageFont_truetype_valid)
    also have "\<dots> = (Inr (FreeTypeFont d ?f),
        ?w1\<lparr>log := log ?w1 @ map (EvTruetype p) (rev [?f..s - 1 - 1])\<rparr>)"
      using "1.hyps" [OF True f1] .
    also have "?w1\<lparr>log := log ?w1 @ map (EvTruetype p) (rev [?f..s - 1 - 1])\<rparr> =
               w\<lparr>log := log w @ map (EvTruetype p) (rev [?f..s - 1])\<rparr>"
      unfolding trail by (simp add: record_event_def)
    finally show ?thesis
      unfolding fs .
  next
    case False
    then have fs: "final_size ?wd mw s = s"
      by (simp add: final_size_done)
    have "shrink_font tb text p mw s (FreeTypeFont d s) w = (Inr (FreeTypeFont d s), w)"
      using False by (subst shrink_font.simps) (auto simp add: text_width_def returnE_def)
    then show ?thesis
      unfolding fs by simp
  qed
qed

lemma get_adaptive_font_valid:
  assumes "files w p = Some (FontFile d)"
  shows "get_adaptive_font tb text p mw init w =
     (Inr (FreeTypeFont d (final_size (text_width tb d text) mw init)),
      w\<lparr>log := log w @ map (EvTruetype p) (rev [final_size (text_width tb d text) mw init..init])\<rparr>)"
proof -
  let ?f = "final_size (text_width tb d text) mw init"
  let ?w1 = "record_event (EvTruetype p init) w"
  have f1: "files ?w1 p = Some (FontFile d)" using assms by simp
  have le: "?f \<le> init" by (rule final_size_le)
  have up: "[?f..init] = [?f..init - 1] @ [init]" using le by (rule upto_rec2)
  have trail: "map (EvTruetype p) (rev [?f..init]) =
               EvTruetype p init # map (EvTruetype p) (rev [?f..init - 1])"
    by (subst up) simp
  have "get_adaptive_font tb text p mw init w = shrink_font tb text p mw init (FreeTypeFont d init) ?w1"
    using assms by (simp add: get_adaptive_font_def bindE_def ImageFont_truetype_valid)
  also note shrink_font_valid [OF f1]
  also have "?w1\<lparr>log := log ?w1 @ map (EvTruetype p) (rev [?f..init - 1])\<rparr> =
             w\<lparr>log := log w @ map (EvTruetype p) (rev [?f..init])\<rparr>"
    unfolding trail by (simp add: record_event_def)
  finally show ?thesis .
qed

lemma get_adaptive_font_invalid:
  assumes "\<forall>d. files w p \<noteq> Some (FontFile d)"
  shows "get_adaptive_font tb text p mw init w = (Inl OSError, record_event (EvTruetype p init) w)"
  using assms by (simp add: get_adaptive_font_def bindE_def ImageFont_truetype_invalid)


lemma sample_world_gloock: "files sample_world gloock_path = Some (FontFile 0)"
  by (simp add: sample_world_def gloock_path_def charmonman_path_def)







text \<open>
  Claim C5. With the text, the font and the initial size fixed, a larger width budget
  never gives a smaller font size.
\<close>

theorem get_adaptive_font_monotone:
  assumes valid: "files w font_path = Some (FontFile d)"
    and budgets: "w1 \<le> w2"
  shows "\<exists>s1 s2.
           fst (get_adaptive_font textbbox text font_path w1 initial_font_size w)
             = Inr (FreeTypeFont d s1)
         \<and> fst (get_adaptive_font textbbox text font_path w2 initial_font_size w)
             = Inr (FreeTypeFont d s2)
         \<and> s1 \<le> s2"
proof -
  let ?wd = "text_width textbbox d text"
  have "fst (get_adaptive_font textbbox text font_path w1 initial_font_size w)
          = Inr (FreeTypeFont d (final_size ?wd w1 initial_font_size))"
    by (simp add: get_adaptive_font_valid [OF valid])
  moreover have "fst (get_adaptive_font textbbox text font_path w2 initial_font_size w)
          = Inr (FreeTypeFont d (final_size ?wd w2 initial_font_size))"
    by (simp add: get_adaptive_font_valid [OF valid])
  moreover have "final_size ?wd w1 initial_font_size \<le> final_size ?wd w2 initial_font_size"
    using budgets by (rule final_size_mono)
  ultimately show ?thesis by blast
qed

theorem get_adaptive_font_monotone_witness:
  "files sample_world gloock_path = Some (FontFile 0)
   \<and> (1000 :: int) \<le> 2200
   \<and> (\<exists>s1 s2.
        fst (get_adaptive_font sample_textbbox ''The Substance'' gloock_path 1000 244 sample_world)
          = Inr (FreeTypeFont 0 s1)
      \<and> fst (get_adaptive_font sample_textbbox ''The Substance'' gloock_path 2200 244 sample_world)
          = Inr (FreeTypeFont 0 s2)
      \<and> s1 \<le> s2)"
proof -
  have le: "(1000 :: int) \<le> 2200" by simp
  show ?thesis
    using sample_world_gloock le
      get_adaptive_font_monotone [OF sample_world_gloock le, of sample_textbbox "''The Substance''" 244]
    by simp
qed

section \<open>Properties of the fill-resize\<close>

lemma Image_open_readable:
  "files w p = Some (ImageFile im) \<Longrightarrow> Image_open p w = (Inr im, record_event (EvOpenImage p) w)"
  by (simp add: Image_open_def)

lemma Image_open_unreadable:
  "(\<forall>im. files w p \<noteq> Some (ImageFile im)) \<Longrightarrow>
   Image_open p w = (Inl (open_error (files w p)), record_event (EvOpenImage p) w)"
  by (auto simp add: Image_open_def open_error_def Let_def split: option.splits content.splits)

lemma smart_resize_image_Inr:
  "image_width im \<noteq> 0 \<Longrightarrow> image_height im \<noteq> 0 \<Longrightarrow>
   smart_resize_image im target = Inr (projr (smart_resize_image im target))"
  by (simp add: smart_resize_image_def py_truediv_def Let_def)

lemma smart_resize_image_size:
  "smart_resize_image im target = Inr canvas \<Longrightarrow> image_size canvas = target"
  by (auto simp add: smart_resize_image_def py_truediv_def Let_def split: if_splits)

lemma smart_resize_image_degenerate:
  "image_width im = 0 \<or> image_height im = 0 \<Longrightarrow>
   smart_resize_image im target = Inl ZeroDivisionError"
  by (auto simp add: smart_resize_image_def py_truediv_def Let_def)

lemma smart_resize_readable:
  assumes "files w p = Some (ImageFile src)"
  shows "smart_resize p target w =
         (smart_resize_image (Convert ''RGBA'' src) target, record_event (EvOpenImage p) w)"
  using assms
  by (cases "smart_resize_image (Convert ''RGBA'' src) target")
    (simp_all add: smart_resize_def bindE_def Image_open_readable liftE_def raiseE_def returnE_def)

lemma smart_resize_unreadable:
  assumes "\<forall>im. files w p \<noteq> Some (ImageFile im)"
  shows "smart_resize p target w = (Inl (open_error (files w p)), record_event (EvOpenImage p) w)"
  using assms by (simp add: smart_resize_def bindE_def Image_open_unreadable)

lemma scale_37: "round_double (2940 / 37) = 2795731187599083 / 35184372088832"
  by code_simp

lemma scale_37w: "round_double (2400 / 37) = 2282229540897211 / 35184372088832"
  by code_simp

lemma new_37: "py_int (py_mul_int_float 37 (2795731187599083 / 35184372088832)) = 2939"
  by code_simp

lemma smart_resize_image_37_square:
  "smart_resize_image (Convert ''RGBA'' (Raster 37 37 px)) (2940, 2940) =
   Inr (Paste (New ''RGBA'' (2940, 2940) (0, 0, 0, 0))
          (Resize (Convert ''RGBA'' (Raster 37 37 px)) (2939, 2939) LANCZOS) (0, 0))"
  by (simp add: smart_resize_image_def py_truediv_def image_width_def image_height_def Let_def
      py_max_def scale_37 new_37)

lemma smart_resize_image_37_poster:
  "smart_resize_image (Convert ''RGBA'' (Raster 37 37 px)) (2400, 2940) =
   Inr (Paste (New ''RGBA'' (2400, 2940) (0, 0, 0, 0))
          (Resize (Convert ''RGBA'' (Raster 37 37 px)) (2939, 2939) LANCZOS) (- 270, 0))"
  by (simp add: smart_resize_image_def py_truediv_def image_width_def image_height_def Let_def
      py_max_def scale_37 scale_37w new_37)

lemma scale_scn: "round_double (12 / 5) = 5404319552844595 / 2251799813685248"
  "round_double (147 / 100) = 6620291452234629 / 4503599627370496"
  by code_simp+

lemma new_scn: "py_int (py_mul_int_float 1000 (5404319552844595 / 2251799813685248)) = 2400"
  "py_int (py_mul_int_float 2000 (5404319552844595 / 2251799813685248)) = 4800"
  by code_simp+

lemma smart_resize_image_scenario:
  "smart_resize_image (Convert ''RGBA'' (Raster 1000 2000 px)) (2400, 2940) =
   Inr (Paste (New ''RGBA'' (2400, 2940) (0, 0, 0, 0))
          (Resize (Convert ''RGBA'' (Raster 1000 2000 px)) (2400, 4800) LANCZOS) (0, - 930))"
  by (simp add: smart_resize_image_def py_truediv_def image_width_def image_height_def Let_def
      py_max_def scale_scn new_scn)

text \<open>
  Claim C1. The canvas \<open>smart_resize\<close> returns has the target size and the resized image
  is pasted at the floored centring offset, but the resized image need not cover the
  canvas in any dimension: the new width and height are the truncations of float
  products, and \<open>37 * (2940 / 37)\<close> is a float just below 2940. For a 37 by 37 source and
  the target 2940 by 2940 the resized image is 2939 by 2939, pasted at \<open>(0, 0)\<close>, so the
  last column and the last row of the canvas stay transparent; for the target of the
  poster, 2400 by 2940, the resized image is 2939 high and the last row stays
  transparent, on the axis whose scale factor was chosen.
\<close>

theorem smart_resize_leaves_canvas_uncovered:
  assumes "files w image_path = Some (ImageFile (Raster 37 37 px))"
  shows "fst (smart_resize image_path (2940, 2940) w) =
           Inr (Paste (New ''RGBA'' (2940, 2940) (0, 0, 0, 0))
                  (Resize (Convert ''RGBA'' (Raster 37 37 px)) (2939, 2939) LANCZOS) (0, 0))
       \<and> fst (smart_resize image_path (2400, 2940) w) =
           Inr (Paste (New ''RGBA'' (2400, 2940) (0, 0, 0, 0))
                  (Resize (Convert ''RGBA'' (Raster 37 37 px)) (2939, 2939) LANCZOS) (- 270, 0))"
  by (simp add: smart_resize_readable [OF assms] smart_resize_image_37_square
      smart_resize_image_37_poster)

lemma tiny_world_small: "files tiny_world ''small.jpg'' = Some (ImageFile (Raster 37 37 0))"
  by (simp add: tiny_world_def)

theorem smart_resize_leaves_canvas_uncovered_witness:
  "files tiny_world ''small.jpg'' = Some (ImageFile (Raster 37 37 0))
   \<and> fst (smart_resize ''small.jpg'' (2940, 2940) tiny_world) =
           Inr (Paste (New ''RGBA'' (2940, 2940) (0, 0, 0, 0))
                  (Resize (Convert ''RGBA'' (Raster 37 37 0)) (2939, 2939) LANCZOS) (0, 0))
   \<and> (0 :: int) + 2939 < 2940"
  using tiny_world_small smart_resize_leaves_canvas_uncovered [OF tiny_world_small]
  by simp

section \<open>Properties of the poster compositor\<close>

lemma float_1_2_value: "float_1_2 = 5404319552844595 / 4503599627370496"
  by code_simp

lemma float_1_3_value: "float_1_3 = 5854679515581645 / 4503599627370496"
  by code_simp

lemma float_1_3_nonzero: "float_1_3 \<noteq> 0"
  by (simp add: float_1_3_value)

lemma blur_quotient: "py_floordiv_float (py_float 2940) float_1_2 = Inr 2450"
  by code_simp

lemma blur_offset: "py_int (py_sub_float_int 2450 2940) = - 490"
  by code_simp

lemma py_floordiv_float_total: "wx \<noteq> 0 \<Longrightarrow> \<exists>q. py_floordiv_float vx wx = Inr q"
  by (simp add: py_floordiv_float_def Let_def)

lemma composite_blur_2940:
  assumes "image_height poster = 2940" and "image_height blur = 2940"
  shows "composite_blur poster blur =
         Inr (AlphaComposite poster
                (Paste (New ''RGBA'' (image_size poster) (0, 0, 0, 0)) blur (0, 490)))"
  by (simp add: composite_blur_def assms blur_quotient blur_offset Let_def)

lemma draw_labels_result:
  "\<exists>drawn room_x.
     draw_labels tb title fp tf gf cf sf = Inr drawn
   \<and> undrawn drawn = undrawn fp
   \<and> drawn_texts drawn = drawn_texts fp @
       [((PyInt (center_position (image_width fp) (tb tf title)),
          PyInt (image_height fp - image_height fp div 4)), title, tf, ''white''),
        ((PyInt (center_position (image_width fp) (add_bboxes (tb gf cine) (tb cf fil))),
          PyInt (image_height fp - 450 + (bbox_bottom (tb gf cine) - bbox_top (tb gf cine)) div 4)),
         cine, gf, ''white''),
        ((PyInt (center_position (image_width fp) (add_bboxes (tb gf cine) (tb cf fil))
                  + bbox_right (tb gf cine)),
          PyInt (image_height fp - 450)), fil, cf, ''white''),
        ((PyFloat room_x,
          PyInt (image_height fp - 450 + (bbox_bottom (tb gf cine) - bbox_top (tb gf cine)) div 4
                 + (bbox_bottom (tb gf cine) - bbox_top (tb gf cine)
                    + (bbox_bottom (tb cf fil) - bbox_top (tb cf fil))) div 4)),
         room_info, sf, ''white''),
        ((PyInt (center_position (image_width fp) (add_bboxes (tb gf cine) (tb cf fil))
                  - bbox_right (tb sf day_info)
                  - (bbox_right (tb gf cine) - bbox_left (tb gf cine)
                     + (bbox_right (tb cf fil) - bbox_left (tb cf fil))) div 3),
          PyInt (image_height fp - 450 + (bbox_bottom (tb gf cine) - bbox_top (tb gf cine)) div 4
                 + (bbox_bottom (tb gf cine) - bbox_top (tb gf cine)
                    + (bbox_bottom (tb cf fil) - bbox_top (tb cf fil))) div 4)),
         day_info, sf, ''white'')]"
proof -
  obtain q where q: "py_floordiv_float
      (py_float (bbox_right (tb gf cine) - bbox_left (tb gf cine)
                 + (bbox_right (tb cf fil) - bbox_left (tb cf fil)))) float_1_3 = Inr q"
    using py_floordiv_float_total [OF float_1_3_nonzero] by blast
  show ?thesis
    by (simp add: draw_labels_def Let_def q)
qed

lemma Image_save_eq:
  "Image_save im path w =
   (Inr (), w\<lparr>files := (files w)(path \<mapsto> ImageFile im), log := log w @ [EvSave path]\<rparr>)"
  by (simp add: Image_save_def record_event_def)

lemma create_image_poster_no_poster:
  assumes "\<forall>im. files w pp \<noteq> Some (ImageFile im)"
  shows "create_image_poster tb title pp out bp w =
         (Inl (open_error (files w pp)), w\<lparr>log := log w @ [EvOpenImage pp]\<rparr>)"
  by (simp add: create_image_poster_def bindE_def smart_resize_unreadable [OF assms]
      record_event_def)

lemma create_image_poster_degenerate:
  assumes "files w pp = Some (ImageFile src)"
    and "image_width src = 0 \<or> image_height src = 0"
  shows "create_image_poster tb title pp out bp w =
         (Inl ZeroDivisionError, w\<lparr>log := log w @ [EvOpenImage pp]\<rparr>)"
proof -
  have "smart_resize_image (Convert ''RGBA'' src) (2400, 2940) = Inl ZeroDivisionError"
    using assms(2) by (intro smart_resize_image_degenerate) (simp add: image_width_def image_height_def)
  then show ?thesis
    by (simp add: create_image_poster_def bindE_def smart_resize_readable [OF assms(1)]
        record_event_def)
qed

lemma poster_canvas:
  assumes "image_width src \<noteq> 0" and "image_height src \<noteq> 0"
  obtains poster where "smart_resize_image (Convert ''RGBA'' src) (2400, 2940) = Inr poster"
    and "image_size poster = (2400, 2940)"
proof -
  have w: "image_width (Convert ''RGBA'' src) \<noteq> 0" "image_height (Convert ''RGBA'' src) \<noteq> 0"
    using assms by (simp_all add: image_width_def image_height_def)
  from smart_resize_image_Inr [OF w]
  obtain poster where p: "smart_resize_image (Convert ''RGBA'' src) (2400, 2940) = Inr poster"
    by blast
  from smart_resize_image_size [OF p] p that show ?thesis by blast
qed

lemma create_image_poster_no_blur:
  assumes "files w pp = Some (ImageFile src)"
    and "image_width src \<noteq> 0" and "image_height src \<noteq> 0"
    and "\<forall>im. files w bp \<noteq> Some (ImageFile im)"
  shows "create_image_poster tb title pp out bp w =
         (Inl (open_error (files w bp)), w\<lparr>log := log w @ [EvOpenImage pp, EvOpenImage bp]\<rparr>)"
proof -
  obtain poster where p: "smart_resize_image (Convert ''RGBA'' src) (2400, 2940) = Inr poster"
    using poster_canvas [OF assms(2,3)] by blast
  let ?w1 = "record_event (EvOpenImage pp) w"
  have s1: "smart_resize pp (2400, 2940) w = (Inr poster, ?w1)"
    by (simp add: smart_resize_readable [OF assms(1)] p)
  have b: "\<forall>im. files ?w1 bp \<noteq> Some (ImageFile im)"
    using assms(4) by simp
  have "create_image_poster tb title pp out bp w =
        (Inl (open_error (files w bp)), record_event (EvOpenImage bp) ?w1)"
    by (simp add: create_image_poster_def bindE_def s1 Image_open_unreadable [OF b])
  then show ?thesis
    by (simp add: record_event_def)
qed

lemma create_image_poster_no_gloock:
  assumes "files w pp = Some (ImageFile src)"
    and "image_width src \<noteq> 0" and "image_height src \<noteq> 0"
    and "files w bp = Some (ImageFile b)"
    and "\<forall>d. files w gloock_path \<noteq> Some (FontFile d)"
  shows "create_image_poster tb title pp out bp w =
         (Inl OSError,
          w\<lparr>log := log w @ [EvOpenImage pp, EvOpenImage bp, EvTruetype gloock_path 244]\<rparr>)"
proof -
  obtain poster where p: "smart_resize_image (Convert ''RGBA'' src) (2400, 2940) = Inr poster"
    and ps: "image_size poster = (2400, 2940)"
    using poster_canvas [OF assms(2,3)] by blast
  let ?w1 = "record_event (EvOpenImage pp) w"
  let ?w2 = "record_event (EvOpenImage bp) ?w1"
  let ?blur = "Convert ''RGBA'' (Resize b (2400, 2940) DefaultResample)"
  have s1: "smart_resize pp (2400, 2940) w = (Inr poster, ?w1)"
    by (simp add: smart_resize_readable [OF assms(1)] p)
  have s2: "Image_open bp ?w1 = (Inr b, ?w2)"
    using assms(4) by (simp add: Image_open_readable)
  have s3: "composite_blur poster ?blur =
            Inr (AlphaComposite poster
                   (Paste (New ''RGBA'' (image_size poster) (0, 0, 0, 0)) ?blur (0, 490)))"
    by (rule composite_blur_2940) (simp_all add: image_height_def ps)
  have g: "\<forall>d. files ?w2 gloock_path \<noteq> Some (FontFile d)"
    using assms(5) by simp
  have "create_image_poster tb title pp out bp w =
        (Inl OSError, record_event (EvTruetype gloock_path 244) ?w2)"
    by (simp add: create_image_poster_def bindE_def s1 s2 s3 liftE_def returnE_def
        get_adaptive_font_invalid [OF g] default_initial_font_size_def)
  then show ?thesis
    by (simp add: record_event_def)
qed

lemma create_image_poster_no_charmonman:
  assumes "files w pp = Some (ImageFile src)"
    and "image_width src \<noteq> 0" and "image_height src \<noteq> 0"
    and "files w bp = Some (ImageFile b)"
    and "files w gloock_path = Some (FontFile g)"
    and "\<forall>d. files w charmonman_path \<noteq> Some (FontFile d)"
  shows "create_image_poster tb title pp out bp w =
         (Inl OSError,
          w\<lparr>log := log w @ [EvOpenImage pp, EvOpenImage bp]
                  @ map (EvTruetype gloock_path)
                      (rev [final_size (text_width tb g title) 2200 244..244])
                  @ [EvTruetype gloock_path 126, EvTruetype charmonman_path 126]\<rparr>)"
proof -
  obtain poster where p: "smart_resize_image (Convert ''RGBA'' src) (2400, 2940) = Inr poster"
    and ps: "image_size poster = (2400, 2940)"
    using poster_canvas [OF assms(2,3)] by blast
  let ?f = "final_size (text_width tb g title) 2200 244"
  let ?blur = "Convert ''RGBA'' (Resize b (2400, 2940) DefaultResample)"
  define w1 where "w1 = record_event (EvOpenImage pp) w"
  define w2 where "w2 = record_event (EvOpenImage bp) w1"
  define w3 where "w3 = w2\<lparr>log := log w2 @ map (EvTruetype gloock_path) (rev [?f..244])\<rparr>"
  define w4 where "w4 = record_event (EvTruetype gloock_path 126) w3"
  have f1: "files w1 = files w" by (simp add: w1_def)
  have f2: "files w2 = files w" by (simp add: w2_def f1)
  have f3: "files w3 = files w" by (simp add: w3_def f2)
  have f4: "files w4 = files w" by (simp add: w4_def f3)
  have s1: "smart_resize pp (2400, 2940) w = (Inr poster, w1)"
    by (simp add: smart_resize_readable [OF assms(1)] p w1_def)
  have s2: "Image_open bp w1 = (Inr b, w2)"
    unfolding w2_def by (rule Image_open_readable) (simp add: f1 assms(4))
  have s3: "composite_blur poster ?blur =
            Inr (AlphaComposite poster
                   (Paste (New ''RGBA'' (image_size poster) (0, 0, 0, 0)) ?blur (0, 490)))"
    by (rule composite_blur_2940) (simp_all add: image_height_def ps)
  have g2: "files w2 gloock_path = Some (FontFile g)"
    by (simp add: f2 assms(5))
  have s4: "get_adaptive_font tb title gloock_path (image_width poster - 200)
              default_initial_font_size w2 = (Inr (FreeTypeFont g ?f), w3)"
    using get_adaptive_font_valid [OF g2, of tb title 2200 244]
    by (simp add: image_width_def ps default_initial_font_size_def w3_def)
  have s5: "ImageFont_truetype gloock_path 126 w3 = (Inr (FreeTypeFont g 126), w4)"
    unfolding w4_def by (rule ImageFont_truetype_valid) (simp add: f3 assms(5))
  have c4: "\<forall>d. files w4 charmonman_path \<noteq> Some (FontFile d)"
    using assms(6) by (simp add: f4)
  have "create_image_poster tb title pp out bp w =
        (Inl OSError, record_event (EvTruetype charmonman_path 126) w4)"
    by (simp add: create_image_poster_def bindE_def s1 s2 s3 liftE_def returnE_def s4 s5
        ImageFont_truetype_invalid [OF c4])
  then show ?thesis
    by (simp add: w4_def w3_def w2_def w1_def record_event_def)
qed

lemma create_image_poster_saves:
  assumes "files w pp = Some (ImageFile src)"
    and "image_width src \<noteq> 0" and "image_height src \<noteq> 0"
    and "files w bp = Some (ImageFile b)"
    and "files w gloock_path = Some (FontFile g)"
    and "files w charmonman_path = Some (FontFile c)"
  shows "\<exists>poster drawn.
           smart_resize_image (Convert ''RGBA'' src) (2400, 2940) = Inr poster
         \<and> draw_labels tb title
             (AlphaComposite poster
                (Paste (New ''RGBA'' (2400, 2940) (0, 0, 0, 0))
                   (Convert ''RGBA'' (Resize b (2400, 2940) DefaultResample)) (0, 490)))
             (FreeTypeFont g (final_size (text_width tb g title) 2200 244))
             (FreeTypeFont g 126) (FreeTypeFont c 126) (FreeTypeFont g 44) = Inr drawn
         \<and> create_image_poster tb title pp out bp w =
             (Inr (),
              w\<lparr>files := (files w)(out \<mapsto> ImageFile drawn),
                log := log w @ [EvOpenImage pp, EvOpenImage bp]
                  @ map (EvTruetype gloock_path)
                      (rev [final_size (text_width tb g title) 2200 244..244])
                  @ [EvTruetype gloock_path 126, EvTruetype charmonman_path 126,
                     EvTruetype gloock_path 44, EvSave out]\<rparr>)"
proof -
  obtain poster where p: "smart_resize_image (Convert ''RGBA'' src) (2400, 2940) = Inr poster"
    and ps: "image_size poster = (2400, 2940)"
    using poster_canvas [OF assms(2,3)] by blast
  let ?f = "final_size (text_width tb g title) 2200 244"
  let ?blur = "Convert ''RGBA'' (Resize b (2400, 2940) DefaultResample)"
  let ?fp = "AlphaComposite poster (Paste (New ''RGBA'' (2400, 2940) (0, 0, 0, 0)) ?blur (0, 490))"
  define w1 where "w1 = record_event (EvOpenImage pp) w"
  define w2 where "w2 = record_event (EvOpenImage bp) w1"
  define w3 where "w3 = w2\<lparr>log := log w2 @ map (EvTruetype gloock_path) (rev [?f..244])\<rparr>"
  define w4 where "w4 = record_event (EvTruetype gloock_path 126) w3"
  define w5 where "w5 = record_event (EvTruetype charmonman_path 126) w4"
  define w6 where "w6 = record_event (EvTruetype gloock_path 44) w5"
  have f1: "files w1 = files w" by (simp add: w1_def)
  have f2: "files w2 = files w" by (simp add: w2_def f1)
  have f3: "files w3 = files w" by (simp add: w3_def f2)
  have f4: "files w4 = files w" by (simp add: w4_def f3)
  have f5: "files w5 = files w" by (simp add: w5_def f4)
  have s1: "smart_resize pp (2400, 2940) w = (Inr poster, w1)"
    by (simp add: smart_resize_readable [OF assms(1)] p w1_def)
  have s2: "Image_open bp w1 = (Inr b, w2)"
    unfolding w2_def by (rule Image_open_readable) (simp add: f1 assms(4))
  have s3: "composite_blur poster ?blur = Inr ?fp"
    using composite_blur_2940 [of poster ?blur] by (simp add: image_height_def ps)
  have g2: "files w2 gloock_path = Some (FontFile g)"
    by (simp add: f2 assms(5))
  have s4: "get_adaptive_font tb title gloock_path (image_width poster - 200)
              default_initial_font_size w2 = (Inr (FreeTypeFont g ?f), w3)"
    using get_adaptive_font_valid [OF g2, of tb title 2200 244]
    by (simp add: image_width_def ps default_initial_font_size_def w3_def)
  have s5: "ImageFont_truetype gloock_path 126 w3 = (Inr (FreeTypeFont g 126), w4)"
    unfolding w4_def by (rule ImageFont_truetype_valid) (simp add: f3 assms(5))
  have s6: "ImageFont_truetype charmonman_path 126 w4 = (Inr (FreeTypeFont c 126), w5)"
    unfolding w5_def by (rule ImageFont_truetype_valid) (simp add: f4 assms(6))
  have s7: "ImageFont_truetype gloock_path 44 w5 = (Inr (FreeTypeFont g 44), w6)"
    unfolding w6_def by (rule ImageFont_truetype_valid) (simp add: f5 assms(5))
  obtain drawn where d: "draw_labels tb title ?fp (FreeTypeFont g ?f) (FreeTypeFont g 126)
       (FreeTypeFont c 126) (FreeTypeFont g 44) = Inr drawn"
    using draw_labels_result [of tb title ?fp] by blast
  have "create_image_poster tb title pp out bp w = Image_save drawn out w6"
    by (simp add: create_image_poster_def bindE_def s1 s2 s3 liftE_def returnE_def s4 s5 s6 s7 d)
  then have "create_image_poster tb title pp out bp w =
             (Inr (),
              w\<lparr>files := (files w)(out \<mapsto> ImageFile drawn),
                log := log w @ [EvOpenImage pp, EvOpenImage bp]
                  @ map (EvTruetype gloock_path) (rev [?f..244])
                  @ [EvTruetype gloock_path 126, EvTruetype charmonman_path 126,
                     EvTruetype gloock_path 44, EvSave out]\<rparr>)"
    by (simp add: Image_save_eq w6_def w5_def w4_def w3_def w2_def w1_def record_event_def)
  with p d show ?thesis by blast
qed

lemma poster_cases [case_names no_poster degenerate no_blur no_gloock no_charmonman complete]:
  obtains
    "\<forall>im. files w pp \<noteq> Some (ImageFile im)"
  | src where "files w pp = Some (ImageFile src)" "image_width src = 0 \<or> image_height src = 0"
  | src where "files w pp = Some (ImageFile src)" "image_width src \<noteq> 0" "image_height src \<noteq> 0"
      "\<forall>im. files w bp \<noteq> Some (ImageFile im)"
  | src b where "files w pp = Some (ImageFile src)" "image_width src \<noteq> 0" "image_height src \<noteq> 0"
      "files w bp = Some (ImageFile b)" "\<forall>d. files w gloock_path \<noteq> Some (FontFile d)"
  | src b g where "files w pp = Some (ImageFile src)" "image_width src \<noteq> 0"
      "image_height src \<noteq> 0" "files w bp = Some (ImageFile b)"
      "files w gloock_path = Some (FontFile g)"
      "\<forall>d. files w charmonman_path \<noteq> Some (FontFile d)"
  | src b g c where "files w pp = Some (ImageFile src)" "image_width src \<noteq> 0"
      "image_height src \<noteq> 0" "files w bp = Some (ImageFile b)"
      "files w gloock_path = Some (FontFile g)" "files w charmonman_path = Some (FontFile c)"
proof (cases "files w pp")
  case None
  then show ?thesis using that(1) by simp
next
  case (Some cp)
  show ?thesis
  proof (cases cp)
    case (ImageFile src)
    note p = Some [unfolded ImageFile]
    show ?thesis
    proof (cases "image_width src = 0 \<or> image_height src = 0")
      case True
      with p that(2) show ?thesis by simp
    next
      case False
      then have nz: "image_width src \<noteq> 0" "image_height src \<noteq> 0" by simp_all
      show ?thesis
      proof (cases "\<exists>b. files w bp = Some (ImageFile b)")
        case False
        then have "\<forall>im. files w bp \<noteq> Some (ImageFile im)" by simp
        with p nz that(3) show ?thesis by simp
      next
        case True
        then obtain b where b: "files w bp = Some (ImageFile b)" ..
        show ?thesis
        proof (cases "\<exists>g. files w gloock_path = Some (FontFile g)")
          case False
          then have "\<forall>d. files w gloock_path \<noteq> Some (FontFile d)" by simp
          with p nz b that(4) show ?thesis by simp
        next
          case True
          then obtain g where g: "files w gloock_path = Some (FontFile g)" ..
          show ?thesis
          proof (cases "\<exists>c. files w charmonman_path = Some (FontFile c)")
            case False
            then have "\<forall>d. files w charmonman_path \<noteq> Some (FontFile d)" by simp
            with p nz b g that(5) show ?thesis by simp
          next
            case True
            then obtain c where c: "files w charmonman_path = Some (FontFile c)" ..
            with p nz b g that(6) show ?thesis by simp
          qed
        qed
      qed
    qed
  next
    case (FontFile d)
    with Some that(1) show ?thesis by simp
  next
    case OtherFile
    with Some that(1) show ?thesis by simp
  qed
qed

lemma create_image_poster_InrD:
  assumes "fst (create_image_poster tb title pp out bp w) = Inr u"
  obtains src b g c where "files w pp = Some (ImageFile src)" "image_width src \<noteq> 0"
      "image_height src \<noteq> 0" "files w bp = Some (ImageFile b)"
      "files w gloock_path = Some (FontFile g)" "files w charmonman_path = Some (FontFile c)"
proof (cases rule: poster_cases [where w = w and pp = pp and bp = bp])
  case no_poster
  from create_image_poster_no_poster [OF this] assms show ?thesis by simp
next
  case (degenerate src)
  from create_image_poster_degenerate [OF this] assms show ?thesis by simp
next
  case (no_blur src)
  from create_image_poster_no_blur [OF this] assms show ?thesis by simp
next
  case (no_gloock src b)
  from create_image_poster_no_gloock [OF this] assms show ?thesis by simp
next
  case (no_charmonman src b g)
  from create_image_poster_no_charmonman [OF this] assms show ?thesis by simp
next
  case (complete src b g c)
  with that show ?thesis by blast
qed

text \<open>
  Claim C2. Whenever \<open>create_image_poster\<close> writes a poster, the image under the drawn
  texts is the alpha composite of the base layer (the canvas \<open>smart_resize\<close> returned)
  and a blank transparent 2400 by 2940 canvas onto which the blur image, resized to
  2400 by 2940, was pasted at horizontal position 0 and vertical position \<open>- offset_y\<close>,
  where \<open>offset_y\<close> is the floor of the base height divided by 1.2, minus the blur
  height. Both heights are 2940, so the top edge of the blur is at vertical coordinate
  490.
\<close>

theorem blur_layer_offset:
  assumes "create_image_poster textbbox title_text poster_image_path output_image_path
             blur_image_path w = (Inr u, w')"
  shows "\<exists>src b poster blur drawn.
           files w poster_image_path = Some (ImageFile src)
         \<and> files w blur_image_path = Some (ImageFile b)
         \<and> fst (smart_resize poster_image_path (2400, 2940) w) = Inr poster
         \<and> blur = Convert ''RGBA'' (Resize b (2400, 2940) DefaultResample)
         \<and> files w' output_image_path = Some (ImageFile drawn)
         \<and> undrawn drawn =
             AlphaComposite poster
               (Paste (New ''RGBA'' (2400, 2940) (0, 0, 0, 0)) blur
                  (0, - (\<lfloor>(of_int (image_height poster) :: rat) / (12 / 10)\<rfloor> - image_height blur)))
         \<and> - (\<lfloor>(of_int (image_height poster) :: rat) / (12 / 10)\<rfloor> - image_height blur) = 490"
proof -
  from assms have "fst (create_image_poster textbbox title_text poster_image_path
      output_image_path blur_image_path w) = Inr u" by simp
  then obtain src b g c where v: "files w poster_image_path = Some (ImageFile src)"
      "image_width src \<noteq> 0" "image_height src \<noteq> 0"
      "files w blur_image_path = Some (ImageFile b)"
      "files w gloock_path = Some (FontFile g)" "files w charmonman_path = Some (FontFile c)"
    by (rule create_image_poster_InrD)
  let ?blur = "Convert ''RGBA'' (Resize b (2400, 2940) DefaultResample)"
  from create_image_poster_saves [OF v, of textbbox title_text output_image_path]
  obtain poster drawn where
    p: "smart_resize_image (Convert ''RGBA'' src) (2400, 2940) = Inr poster"
    and d: "draw_labels textbbox title_text
             (AlphaComposite poster (Paste (New ''RGBA'' (2400, 2940) (0, 0, 0, 0)) ?blur (0, 490)))
             (FreeTypeFont g (final_size (text_width textbbox g title_text) 2200 244))
             (FreeTypeFont g 126) (FreeTypeFont c 126) (FreeTypeFont g 44) = Inr drawn"
    and r: "files (snd (create_image_poster textbbox title_text poster_image_path
              output_image_path blur_image_path w)) output_image_path = Some (ImageFile drawn)"
    by auto
  have hp: "image_height poster = 2940"
    using smart_resize_image_size [OF p] by (simp add: image_height_def)
  have hb: "image_height ?blur = 2940"
    by (simp add: image_height_def)
  have off: "- (\<lfloor>(of_int (image_height poster) :: rat) / (12 / 10)\<rfloor> - image_height ?blur) = 490"
    unfolding hp hb by simp
  have sr: "fst (smart_resize poster_image_path (2400, 2940) w) = Inr poster"
    by (simp add: smart_resize_readable [OF v(1)] p)
  have saved: "files w' output_image_path = Some (ImageFile drawn)"
    using r assms by simp
  from draw_labels_result [of textbbox title_text
      "AlphaComposite poster (Paste (New ''RGBA'' (2400, 2940) (0, 0, 0, 0)) ?blur (0, 490))"
      "FreeTypeFont g (final_size (text_width textbbox g title_text) 2200 244)"
      "FreeTypeFont g 126" "FreeTypeFont c 126" "FreeTypeFont g 44"] d
  have und: "undrawn drawn =
      AlphaComposite poster (Paste (New ''RGBA'' (2400, 2940) (0, 0, 0, 0)) ?blur (0, 490))"
    by auto
  have und': "undrawn drawn =
      AlphaComposite poster (Paste (New ''RGBA'' (2400, 2940) (0, 0, 0, 0)) ?blur
        (0, - (\<lfloor>(of_int (image_height poster) :: rat) / (12 / 10)\<rfloor> - image_height ?blur)))"
    unfolding off by (rule und)
  show ?thesis
    by (intro exI conjI) (rule v(1), rule v(4), rule sr, rule refl, rule saved, rule und', rule off)
qed

lemma sample_world_files:
  "files sample_world ''poster.jpg'' = Some (ImageFile (Raster 1000 2000 0))"
  "files sample_world ''Blur.png'' = Some (ImageFile (Raster 600 800 1))"
  "files sample_world charmonman_path = Some (FontFile 1)"
  by (simp_all add: sample_world_def gloock_path_def charmonman_path_def)

lemma sample_run:
  "\<exists>w'. create_image_poster sample_textbbox ''A'' ''poster.jpg'' ''out.png'' ''Blur.png''
          sample_world = (Inr (), w')"
proof -
  have nz: "image_width (Raster 1000 2000 0) \<noteq> 0" "image_height (Raster 1000 2000 0) \<noteq> 0"
    by (simp_all add: image_width_def image_height_def)
  from create_image_poster_saves [OF sample_world_files(1) nz sample_world_files(2)
      sample_world_gloock sample_world_files(3), of sample_textbbox "''A''" "''out.png''"]
  show ?thesis by blast
qed

theorem blur_layer_offset_witness:
  "\<exists>w' drawn.
     create_image_poster sample_textbbox ''A'' ''poster.jpg'' ''out.png'' ''Blur.png''
       sample_world = (Inr (), w')
   \<and> files w' ''out.png'' = Some (ImageFile drawn)
   \<and> undrawn drawn =
       AlphaComposite
         (Paste (New ''RGBA'' (2400, 2940) (0, 0, 0, 0))
            (Resize (Convert ''RGBA'' (Raster 1000 2000 0)) (2400, 4800) LANCZOS) (0, - 930))
         (Paste (New ''RGBA'' (2400, 2940) (0, 0, 0, 0))
            (Convert ''RGBA'' (Resize (Raster 600 800 1) (2400, 2940) DefaultResample))
            (0, 490))"
proof -
  from sample_run obtain w' where run:
    "create_image_poster sample_textbbox ''A'' ''poster.jpg'' ''out.png'' ''Blur.png''
       sample_world = (Inr (), w')" ..
  from blur_layer_offset [OF run] obtain src b poster blur drawn where
    f: "files sample_world ''poster.jpg'' = Some (ImageFile src)"
       "files sample_world ''Blur.png'' = Some (ImageFile b)"
       "fst (smart_resize ''poster.jpg'' (2400, 2940) sample_world) = Inr poster"
       "blur = Convert ''RGBA'' (Resize b (2400, 2940) DefaultResample)"
       "files w' ''out.png'' = Some (ImageFile drawn)"
       "undrawn drawn = AlphaComposite poster
          (Paste (New ''RGBA'' (2400, 2940) (0, 0, 0, 0)) blur
             (0, - (\<lfloor>(of_int (image_height poster) :: rat) / (12 / 10)\<rfloor> - image_height blur)))"
       "- (\<lfloor>(of_int (image_height poster) :: rat) / (12 / 10)\<rfloor> - image_height blur) = 490"
    by blast
  have b: "b = Raster 600 800 1" using f(2) sample_world_files(2) by simp
  have p: "poster = Paste (New ''RGBA'' (2400, 2940) (0, 0, 0, 0))
            (Resize (Convert ''RGBA'' (Raster 1000 2000 0)) (2400, 4800) LANCZOS) (0, - 930)"
    using f(3) by (simp add: smart_resize_readable [OF sample_world_files(1)]
        smart_resize_image_scenario)
  have "undrawn drawn = AlphaComposite poster
          (Paste (New ''RGBA'' (2400, 2940) (0, 0, 0, 0)) blur (0, 490))"
    using f(6) unfolding f(7) .
  then show ?thesis
    using run f(5) unfolding p f(4) b by blast
qed

text \<open>
  Claim C7. Whenever \<open>create_image_poster\<close> writes a poster, five texts are drawn on it.
  The second is the first part of the brand mark. With \<open>(l1, t1, r1, b1)\<close> the box of
  the first part and \<open>(l2, t2, r2, b2)\<close> the box of the second part, the union of the two
  boxes spans from \<open>min l1 l2\<close> to \<open>max r1 r2\<close>, and the horizontal position of the first
  part centres that span in the canvas width 2400; its vertical position is \<open>2940 - 450\<close>
  plus a quarter (floored) of the height \<open>b1 - t1\<close> of its box. The third text is the
  second part: it is drawn at the fixed vertical position \<open>2940 - 450\<close>, and it starts at
  the right edge of the first part, that is, at the position of the first part plus the
  right edge \<open>r1\<close> of its box measured at the origin.
\<close>

theorem brand_mark_layout:
  assumes run: "create_image_poster textbbox title_text poster_image_path output_image_path
                  blur_image_path w = (Inr u, w')"
    and g: "files w gloock_path = Some (FontFile g)"
    and c: "files w charmonman_path = Some (FontFile c)"
    and cb: "textbbox (FreeTypeFont g 126) cine = (l1, t1, r1, b1)"
    and fb: "textbbox (FreeTypeFont c 126) fil = (l2, t2, r2, b2)"
  shows "\<exists>drawn.
           files w' output_image_path = Some (ImageFile drawn)
         \<and> length (drawn_texts drawn) = 5
         \<and> drawn_texts drawn ! 1 =
             ((PyInt ((2400 - (max r1 r2 - min l1 l2)) div 2),
               PyInt (2940 - 450 + (b1 - t1) div 4)),
              cine, FreeTypeFont g 126, ''white'')
         \<and> drawn_texts drawn ! 2 =
             ((PyInt ((2400 - (max r1 r2 - min l1 l2)) div 2 + r1),
               PyInt (2940 - 450)),
              fil, FreeTypeFont c 126, ''white'')"
proof -
  from run have "fst (create_image_poster textbbox title_text poster_image_path
      output_image_path blur_image_path w) = Inr u" by simp
  then obtain src b g' c' where v: "files w poster_image_path = Some (ImageFile src)"
      "image_width src \<noteq> 0" "image_height src \<noteq> 0"
      "files w blur_image_path = Some (ImageFile b)"
      "files w gloock_path = Some (FontFile g')" "files w charmonman_path = Some (FontFile c')"
    by (rule create_image_poster_InrD)
  have gc: "g' = g" "c' = c" using v(5,6) g c by simp_all
  let ?blur = "Convert ''RGBA'' (Resize b (2400, 2940) DefaultResample)"
  from create_image_poster_saves [OF v, of textbbox title_text output_image_path]
  obtain poster drawn where
    p: "smart_resize_image (Convert ''RGBA'' src) (2400, 2940) = Inr poster"
    and d: "draw_labels textbbox title_text
             (AlphaComposite poster (Paste (New ''RGBA'' (2400, 2940) (0, 0, 0, 0)) ?blur (0, 490)))
             (FreeTypeFont g (final_size (text_width textbbox g title_text) 2200 244))
             (FreeTypeFont g 126) (FreeTypeFont c 126) (FreeTypeFont g 44) = Inr drawn"
    and r: "files (snd (create_image_poster textbbox title_text poster_image_path
              output_image_path blur_image_path w)) output_image_path = Some (ImageFile drawn)"
    unfolding gc by auto
  have sz: "image_size poster = (2400, 2940)"
    by (rule smart_resize_image_size [OF p])
  have saved: "files w' output_image_path = Some (ImageFile drawn)"
    using r run by simp
  define x where "x = center_position 2400
      (add_bboxes (textbbox (FreeTypeFont g 126) cine) (textbbox (FreeTypeFont c 126) fil))"
  have xe: "x = (2400 - (max r1 r2 - min l1 l2)) div 2"
    unfolding x_def cb fb add_bboxes_components
    by (simp add: center_position_def bbox_left_def bbox_right_def)
  from draw_labels_result [of textbbox title_text
      "AlphaComposite poster (Paste (New ''RGBA'' (2400, 2940) (0, 0, 0, 0)) ?blur (0, 490))"
      "FreeTypeFont g (final_size (text_width textbbox g title_text) 2200 244)"
      "FreeTypeFont g 126" "FreeTypeFont c 126" "FreeTypeFont g 44"] d
  obtain first fourth fifth where texts: "drawn_texts drawn =
       [first,
        ((PyInt x, PyInt (2940 - 450 + (b1 - t1) div 4)), cine, FreeTypeFont g 126, ''white''),
        ((PyInt (x + r1), PyInt (2940 - 450)), fil, FreeTypeFont c 126, ''white''),
        fourth, fifth]"
    unfolding x_def cb fb
    by (auto simp add: image_width_def image_height_def sz bbox_left_def bbox_right_def
        bbox_top_def bbox_bottom_def)
  show ?thesis
    by (rule exI [of _ drawn]) (simp add: saved texts xe)
qed

theorem brand_mark_layout_witness:
  "\<exists>w' drawn.
     create_image_poster offset_textbbox ''A'' ''poster.jpg'' ''out.png'' ''Blur.png''
       sample_world = (Inr (), w')
   \<and> offset_textbbox (FreeTypeFont 0 126) cine = (4, 0, 508, 126)
   \<and> offset_textbbox (FreeTypeFont 1 126) fil = (3, 0, 381, 126)
   \<and> files w' ''out.png'' = Some (ImageFile drawn)
   \<and> drawn_texts drawn ! 1 = ((PyInt 947, PyInt 2521), cine, FreeTypeFont 0 126, ''white'')
   \<and> drawn_texts drawn ! 2 = ((PyInt 1455, PyInt 2490), fil, FreeTypeFont 1 126, ''white'')"
proof -
  have nz: "image_width (Raster 1000 2000 0) \<noteq> 0" "image_height (Raster 1000 2000 0) \<noteq> 0"
    by (simp_all add: image_width_def image_height_def)
  from create_image_poster_saves [OF sample_world_files(1) nz sample_world_files(2)
      sample_world_gloock sample_world_files(3), of offset_textbbox "''A''" "''out.png''"]
  obtain w' where run:
    "create_image_poster offset_textbbox ''A'' ''poster.jpg'' ''out.png'' ''Blur.png''
       sample_world = (Inr (), w')" by blast
  have cb: "offset_textbbox (FreeTypeFont 0 126) cine = (4, 0, 508, 126)"
    by (simp add: offset_textbbox_def cine_def)
  have fb: "offset_textbbox (FreeTypeFont 1 126) fil = (3, 0, 381, 126)"
    by (simp add: offset_textbbox_def fil_def)
  from brand_mark_layout [OF run sample_world_gloock sample_world_files(3) cb fb]
  obtain drawn where d: "files w' ''out.png'' = Some (ImageFile drawn)"
    "drawn_texts drawn ! 1 = ((PyInt 947, PyInt 2521), cine, FreeTypeFont 0 126, ''white'')"
    "drawn_texts drawn ! 2 = ((PyInt 1455, PyInt 2490), fil, FreeTypeFont 1 126, ''white'')"
    by auto
  with run cb fb show ?thesis by blast
qed

text \<open>
  Claim C10. If the source image or the blur image is missing or unreadable, or one of
  the two font paths is invalid, \<open>create_image_poster\<close> ends with an error. A run that
  ends with an error has written nothing: the files are those before the run and no save
  was made; only a run that succeeds changes a file, the output, by the save that is its
  last access. Nothing is retried: the log of a failed run ends with the access that
  failed, made once.
\<close>

theorem create_image_poster_fails_without_output:
  assumes run: "create_image_poster textbbox title_text poster_image_path output_image_path
                  blur_image_path w = (r, w')"
  shows "((\<forall>im. files w poster_image_path \<noteq> Some (ImageFile im))
          \<or> (\<forall>im. files w blur_image_path \<noteq> Some (ImageFile im))
          \<or> (\<forall>d. files w gloock_path \<noteq> Some (FontFile d))
          \<or> (\<forall>d. files w charmonman_path \<noteq> Some (FontFile d))
          \<longrightarrow> (\<exists>e. r = Inl e))
       \<and> ((\<exists>e. r = Inl e)
          \<longrightarrow> files w' = files w
              \<and> (\<exists>evs. log w' = log w @ evs \<and> (\<forall>p. EvSave p \<notin> set evs)))
       \<and> (r = Inr ()
          \<longrightarrow> (\<exists>drawn evs. files w' = (files w)(output_image_path \<mapsto> ImageFile drawn)
                \<and> log w' = log w @ evs @ [EvSave output_image_path]
                \<and> (\<forall>p. EvSave p \<notin> set evs)))
       \<and> ((\<forall>im. files w poster_image_path \<noteq> Some (ImageFile im))
          \<longrightarrow> log w' = log w @ [EvOpenImage poster_image_path])
       \<and> ((\<exists>src. files w poster_image_path = Some (ImageFile src)
                  \<and> image_width src \<noteq> 0 \<and> image_height src \<noteq> 0)
          \<and> (\<forall>im. files w blur_image_path \<noteq> Some (ImageFile im))
          \<longrightarrow> log w' = log w @ [EvOpenImage poster_image_path, EvOpenImage blur_image_path])
       \<and> ((\<exists>src. files w poster_image_path = Some (ImageFile src)
                  \<and> image_width src \<noteq> 0 \<and> image_height src \<noteq> 0)
          \<and> (\<exists>b. files w blur_image_path = Some (ImageFile b))
          \<and> (\<forall>d. files w gloock_path \<noteq> Some (FontFile d))
          \<longrightarrow> log w' = log w @ [EvOpenImage poster_image_path, EvOpenImage blur_image_path,
                                  EvTruetype gloock_path 244])
       \<and> ((\<exists>src. files w poster_image_path = Some (ImageFile src)
                  \<and> image_width src \<noteq> 0 \<and> image_height src \<noteq> 0)
          \<and> (\<exists>b. files w blur_image_path = Some (ImageFile b))
          \<and> (\<exists>g. files w gloock_path = Some (FontFile g))
          \<and> (\<forall>d. files w charmonman_path \<noteq> Some (FontFile d))
          \<longrightarrow> (\<exists>sizes. log w' = log w @ [EvOpenImage poster_image_path,
                                             EvOpenImage blur_image_path]
                            @ map (EvTruetype gloock_path) sizes
                            @ [EvTruetype gloock_path 126, EvTruetype charmonman_path 126]))"
proof (cases rule: poster_cases [where w = w and pp = poster_image_path and bp = blur_image_path])
  case no_poster
  from create_image_poster_no_poster [OF no_poster, of textbbox title_text output_image_path]
    run
  have r: "r = Inl (open_error (files w poster_image_path))"
    and w': "w' = w\<lparr>log := log w @ [EvOpenImage poster_image_path]\<rparr>" by simp_all
  show ?thesis using no_poster by (simp add: r w')
next
  case (degenerate src)
  from create_image_poster_degenerate [OF degenerate, of textbbox title_text output_image_path]
    run
  have r: "r = Inl ZeroDivisionError"
    and w': "w' = w\<lparr>log := log w @ [EvOpenImage poster_image_path]\<rparr>" by simp_all
  show ?thesis using degenerate by (auto simp add: r w')
next
  case (no_blur src)
  from create_image_poster_no_blur [OF no_blur, of textbbox title_text output_image_path] run
  have r: "r = Inl (open_error (files w blur_image_path))"
    and w': "w' = w\<lparr>log := log w @ [EvOpenImage poster_image_path,
                                       EvOpenImage blur_image_path]\<rparr>" by simp_all
  show ?thesis using no_blur by (simp add: r w')
next
  case (no_gloock src b)
  from create_image_poster_no_gloock [OF no_gloock, of textbbox title_text output_image_path]
    run
  have r: "r = Inl OSError"
    and w': "w' = w\<lparr>log := log w @ [EvOpenImage poster_image_path,
               EvOpenImage blur_image_path, EvTruetype gloock_path 244]\<rparr>" by simp_all
  show ?thesis using no_gloock by (simp add: r w')
next
  case (no_charmonman src b g)
  let ?sizes = "rev [final_size (text_width textbbox g title_text) 2200 244..244]"
  from create_image_poster_no_charmonman [OF no_charmonman, of textbbox title_text
      output_image_path] run
  have r: "r = Inl OSError"
    and w': "w' = w\<lparr>log := log w @ [EvOpenImage poster_image_path, EvOpenImage blur_image_path]
               @ map (EvTruetype gloock_path) ?sizes
               @ [EvTruetype gloock_path 126, EvTruetype charmonman_path 126]\<rparr>" by simp_all
  have nosave: "\<forall>p. EvSave p \<notin> set ([EvOpenImage poster_image_path, EvOpenImage blur_image_path]
               @ map (EvTruetype gloock_path) ?sizes
               @ [EvTruetype gloock_path 126, EvTruetype charmonman_path 126])"
    by auto
  have lg: "log w' = log w @ ([EvOpenImage poster_image_path, EvOpenImage blur_image_path]
               @ map (EvTruetype gloock_path) ?sizes
               @ [EvTruetype gloock_path 126, EvTruetype charmonman_path 126])"
    by (simp add: w')
  have c2: "\<exists>evs. log w' = log w @ evs \<and> (\<forall>p. EvSave p \<notin> set evs)"
    using lg nosave by blast
  have c7: "\<exists>sizes. log w' = log w @ [EvOpenImage poster_image_path, EvOpenImage blur_image_path]
                            @ map (EvTruetype gloock_path) sizes
                            @ [EvTruetype gloock_path 126, EvTruetype charmonman_path 126]"
    using lg by auto
  have fw: "files w' = files w" by (simp add: w')
  show ?thesis
    using no_charmonman c2 c7 fw by (simp add: r)
next
  case (complete src b g c)
  let ?sizes = "rev [final_size (text_width textbbox g title_text) 2200 244..244]"
  let ?evs = "[EvOpenImage poster_image_path, EvOpenImage blur_image_path]
               @ map (EvTruetype gloock_path) ?sizes
               @ [EvTruetype gloock_path 126, EvTruetype charmonman_path 126,
                  EvTruetype gloock_path 44]"
  from create_image_poster_saves [OF complete, of textbbox title_text output_image_path] run
  obtain drawn where r: "r = Inr ()"
    and w': "w' = w\<lparr>files := (files w)(output_image_path \<mapsto> ImageFile drawn),
               log := log w @ [EvOpenImage poster_image_path, EvOpenImage blur_image_path]
               @ map (EvTruetype gloock_path) ?sizes
               @ [EvTruetype gloock_path 126, EvTruetype charmonman_path 126,
                  EvTruetype gloock_path 44, EvSave output_image_path]\<rparr>" by auto
  have nosave: "\<forall>p. EvSave p \<notin> set ?evs" by auto
  have lg: "log w' = log w @ ?evs @ [EvSave output_image_path]" by (simp add: w')
  have fw: "files w' = (files w)(output_image_path \<mapsto> ImageFile drawn)" by (simp add: w')
  have c3: "\<exists>drawn evs. files w' = (files w)(output_image_path \<mapsto> ImageFile drawn)
                \<and> log w' = log w @ evs @ [EvSave output_image_path]
                \<and> (\<forall>p. EvSave p \<notin> set evs)"
    using fw lg nosave by blast
  show ?thesis
    using complete c3 by (simp add: r)
qed

theorem create_image_poster_fails_without_output_witness:
  "\<exists>w'. create_image_poster sample_textbbox ''A'' ''small.jpg'' ''out.png'' ''Blur.png''
           tiny_world = (Inl FileNotFoundError, w')
       \<and> files w' = files tiny_world
       \<and> files w' ''out.png'' = None
       \<and> log w' = [EvOpenImage ''small.jpg'', EvOpenImage ''Blur.png'']"
proof -
  obtain r w' where run:
    "create_image_poster sample_textbbox ''A'' ''small.jpg'' ''out.png'' ''Blur.png''
       tiny_world = (r, w')"
    by (cases "create_image_poster sample_textbbox ''A'' ''small.jpg'' ''out.png'' ''Blur.png''
       tiny_world") blast
  have nz: "image_width (Raster 37 37 0) \<noteq> 0" "image_height (Raster 37 37 0) \<noteq> 0"
    by (simp_all add: image_width_def image_height_def)
  have nb: "\<forall>im. files tiny_world ''Blur.png'' \<noteq> Some (ImageFile im)"
    by (simp add: tiny_world_def)
  have r: "r = Inl FileNotFoundError"
    using create_image_poster_no_blur [OF tiny_world_small nz nb, of sample_textbbox "''A''"
        "''out.png''"] run
    by (simp add: open_error_def tiny_world_def)
  from create_image_poster_fails_without_output [OF run] r tiny_world_small nz nb
  have "files w' = files tiny_world"
    and "log w' = log tiny_world @ [EvOpenImage ''small.jpg'', EvOpenImage ''Blur.png'']"
    by blast+
  then show ?thesis
    using run r by (simp add: tiny_world_def)
qed


section \<open>Properties of the orchestration\<close>







lemma tracksI:
  assumes "\<And>w. \<exists>evs. log (snd (m w)) = log w @ evs
            \<and> (\<forall>u. EvGet u \<in> set evs \<longrightarrow> G u)
            \<and> ((\<exists>x. fst (m w) = Inr x) \<longrightarrow> saved_paths evs = S)"
  shows "tracks m G S"
  using assms unfolding tracks_def by blast



lemma tracks_liftE: "tracks (liftE r) G []"
  by (rule tracksI) (cases r; simp add: liftE_def returnE_def raiseE_def)












lemma api_record_event [simp]: "api (record_event ev w) = api w"
  by (simp add: record_event_def)














end
